theory Spec2Isabelle
  imports Complex_Main "HOL-Library.Char_ord" "HOL-Library.List_Lexorder" "HOL-Library.Option_ord"
begin

section \<open>The persistence store (attendance.db)\<close>

text \<open>
  The two tables created by \<open>init_db\<close>, as lists of rows in rowid order.

  \<^item> \<open>students\<close>: \<open>id INTEGER PRIMARY KEY AUTOINCREMENT\<close>, \<open>student_id TEXT UNIQUE\<close>,
    \<open>name TEXT NOT NULL\<close>, \<open>face_encoding TEXT\<close>, \<open>created_at\<close>.
  \<^item> \<open>attendance\<close>: \<open>id INTEGER PRIMARY KEY AUTOINCREMENT\<close>, \<open>student_id TEXT\<close>,
    \<open>date DATE\<close>, \<open>status TEXT\<close>, \<open>timestamp\<close>. The only uniqueness constraint of this
    table is its primary key \<open>id\<close>.

  Text is a \<open>string\<close> (bytes, compared as SQLite's BINARY collation compares them), a
  nullable text column is a \<open>string option\<close>. The embeddings are Python floats; they are
  idealised as \<open>real\<close> (no NaN, no rounding). \<open>CURRENT_TIMESTAMP\<close> and \<open>date.today()\<close>
  are read from the environment and are passed to every operation that reads them.
  Failures of sqlite3 itself (I/O, a locked file) are not modelled. A date is compared
  as text: the \<open>date\<close> column has numeric affinity, which leaves a text such as an ISO
  date, not being a number, as it is.
\<close>

type_synonym encoding = "real list"

type_synonym timestamp = string

text \<open>
  The \<open>face_encoding\<close> column: NULL, the empty text, or the text that \<open>json.dumps\<close>
  wrote for a vector (\<open>json.loads\<close> reads the same vector back).
\<close>

datatype face_cell = SqlNull | EmptyText | JsonText encoding

record student_row =
  st_id :: nat
  st_student_id :: string
  st_name :: string
  st_face_encoding :: face_cell
  st_created_at :: timestamp

record attendance_row =
  at_id :: nat
  at_student_id :: "string option"
  at_date :: "string option"
  at_status :: "string option"
  at_timestamp :: timestamp

record db =
  students :: "student_row list"
  students_seq :: nat
  attendance :: "attendance_row list"
  attendance_seq :: nat

definition init_db :: db where
  "init_db = \<lparr>students = [], students_seq = 0, attendance = [], attendance_seq = 0\<rparr>"

text \<open>
  AUTOINCREMENT: a row inserted without an explicit \<open>id\<close> gets an id one larger than
  the largest id that the table has ever held.
\<close>

definition next_rowid :: "nat \<Rightarrow> nat list \<Rightarrow> nat" where
  "next_rowid seq ids = Suc (max seq (fold max ids 0))"

text \<open>
  \<open>INSERT OR REPLACE INTO students (student_id, name, face_encoding) VALUES (?, ?, ?)\<close>:
  the rows that conflict with the new one on the primary key or on the UNIQUE column
  \<open>student_id\<close> are deleted, then the new row is inserted.
\<close>

definition insert_or_replace_student ::
  "db \<Rightarrow> string \<Rightarrow> string \<Rightarrow> face_cell \<Rightarrow> timestamp \<Rightarrow> db" where
  "insert_or_replace_student d sid nm enc now =
     (let i = next_rowid (students_seq d) (map st_id (students d));
          kept = filter (\<lambda>r. st_id r \<noteq> i \<and> st_student_id r \<noteq> sid) (students d)
      in d\<lparr>students := kept @ [\<lparr>st_id = i, st_student_id = sid, st_name = nm,
                                 st_face_encoding = enc, st_created_at = now\<rparr>],
            students_seq := i\<rparr>)"

text \<open>
  \<open>INSERT OR REPLACE INTO attendance (student_id, date, status) VALUES (?, ?, ?)\<close>:
  the rows that conflict with the new one on the primary key are deleted (the table
  declares no other uniqueness constraint), then the new row is inserted.
\<close>

definition insert_or_replace_attendance ::
  "db \<Rightarrow> string option \<Rightarrow> string option \<Rightarrow> string option \<Rightarrow> timestamp \<Rightarrow> db" where
  "insert_or_replace_attendance d sid dt st now =
     (let i = next_rowid (attendance_seq d) (map at_id (attendance d));
          kept = filter (\<lambda>a. at_id a \<noteq> i) (attendance d)
      in d\<lparr>attendance := kept @ [\<lparr>at_id = i, at_student_id = sid, at_date = dt,
                                   at_status = st, at_timestamp = now\<rparr>],
            attendance_seq := i\<rparr>)"

text \<open>\<open>SELECT name FROM students WHERE student_id = ?\<close>, then \<open>fetchone()\<close>.\<close>

definition select_name :: "db \<Rightarrow> string \<Rightarrow> string option" where
  "select_name d sid =
     (case filter (\<lambda>r. st_student_id r = sid) (students d) of
        [] \<Rightarrow> None
      | r # _ \<Rightarrow> Some (st_name r))"

text \<open>
  The query of \<open>get_attendance\<close> and \<open>export_attendance\<close>:
  \<open>FROM students s LEFT JOIN attendance a ON s.student_id = a.student_id AND a.date = ?
  ORDER BY s.student_id\<close>. Every student yields one joined row per attendance row that
  matches it, and one row with NULLs when none does. A NULL \<open>student_id\<close> or \<open>date\<close> of
  an attendance row matches nothing. The date is compared as text, which is SQLite's
  comparison whenever the parameter is not the text of a number, as with YYYY-MM-DD.

  SQL leaves the order of the joined rows of one student open. SQLite answers the join
  from an automatic index on the attendance table, whose key is the two joined columns,
  then the other columns that the query reads, then the rowid: the rows of one student
  come sorted by \<open>status\<close> (NULL first), then by \<open>timestamp\<close> when the query reads it (as
  \<open>get_attendance\<close> does, and \<open>export_attendance\<close> does not), then by rowid.
\<close>

definition index_order_status_timestamp :: "attendance_row list \<Rightarrow> attendance_row list" where
  "index_order_status_timestamp ms = sort_key at_status (sort_key at_timestamp (sort_key at_id ms))"

definition index_order_status :: "attendance_row list \<Rightarrow> attendance_row list" where
  "index_order_status ms = sort_key at_status (sort_key at_id ms)"

definition join_rows ::
  "(attendance_row list \<Rightarrow> attendance_row list) \<Rightarrow> attendance_row list \<Rightarrow> string
     \<Rightarrow> student_row \<Rightarrow> (student_row \<times> attendance_row option) list" where
  "join_rows index_order as dt s =
     (let ms = index_order
                 (filter (\<lambda>a. at_student_id a = Some (st_student_id s) \<and> at_date a = Some dt) as)
      in if ms = [] then [(s, None)] else map (\<lambda>a. (s, Some a)) ms)"

definition left_join_attendance ::
  "(attendance_row list \<Rightarrow> attendance_row list) \<Rightarrow> db \<Rightarrow> string
     \<Rightarrow> (student_row \<times> attendance_row option) list" where
  "left_join_attendance index_order d dt =
     concat (map (join_rows index_order (attendance d) dt)
               (sort_key st_student_id (students d)))"

section \<open>The face template provider (the face_recognition library)\<close>

text \<open>
  The library is not part of the repository: its five functions that the code calls are
  parameters of the model. \<open>face_encodings image None\<close> is the call with the image alone,
  \<open>face_encodings image (Some locs)\<close> the call with known face locations.
\<close>

record ('file, 'image, 'loc) provider =
  load_image_file :: "'file \<Rightarrow> 'image"
  face_locations :: "'image \<Rightarrow> 'loc list"
  face_encodings :: "'image \<Rightarrow> 'loc list option \<Rightarrow> encoding list"
  compare_faces :: "encoding list \<Rightarrow> encoding \<Rightarrow> bool list"
  face_distance :: "encoding list \<Rightarrow> encoding \<Rightarrow> real list"

section \<open>The attendance engine (class AttendanceSystem)\<close>

record system =
  database :: db
  known_face_encodings :: "encoding list"
  known_face_ids :: "string list"

text \<open>
  The loop of \<open>load_known_faces\<close> over the fetched rows: a row whose \<open>encoding_json\<close> is
  falsy (NULL or the empty text) is skipped.
\<close>

fun load_rows :: "student_row list \<Rightarrow> encoding list \<times> string list" where
  "load_rows [] = ([], [])"
| "load_rows (r # rs) =
     (case st_face_encoding r of
        JsonText e \<Rightarrow> (e # fst (load_rows rs), st_student_id r # snd (load_rows rs))
      | _ \<Rightarrow> load_rows rs)"

definition load_known_faces :: "system \<Rightarrow> system" where
  "load_known_faces s =
     s\<lparr>known_face_encodings := fst (load_rows (students (database s))),
       known_face_ids := snd (load_rows (students (database s)))\<rparr>"

definition AttendanceSystem_init :: "db \<Rightarrow> system" where
  "AttendanceSystem_init d =
     load_known_faces \<lparr>database = d, known_face_encodings = [], known_face_ids = []\<rparr>"

text \<open>
  \<open>AttendanceSystem.register_student\<close>. The caller passes a text \<open>student_id\<close> and \<open>name\<close>,
  with which the INSERT OR REPLACE violates no constraint, so the \<open>except\<close> branch is
  reached by failures of sqlite3 only.
\<close>

definition AttendanceSystem_register_student ::
  "('file, 'image, 'loc) provider \<Rightarrow> timestamp \<Rightarrow> system \<Rightarrow> string \<Rightarrow> string \<Rightarrow> 'file
     \<Rightarrow> (bool \<times> string) \<times> system" where
  "AttendanceSystem_register_student P now s student_id nm image_file =
     (let image = load_image_file P image_file;
          encs = face_encodings P image None
      in case encs of
           [] \<Rightarrow> ((False, ''No face detected in the image''), s)
         | face_encoding # _ \<Rightarrow>
             ((True, ''Student registered successfully''),
              load_known_faces
                (s\<lparr>database := insert_or_replace_student (database s) student_id nm
                                  (JsonText face_encoding) now\<rparr>)))"

text \<open>
  \<open>np.argmin\<close>: the index of the first least element. numpy raises on an empty array;
  the only call is guarded by \<open>len(face_distances) > 0\<close>.
\<close>

fun argmin :: "real list \<Rightarrow> nat" where
  "argmin [] = 0"
| "argmin [d] = 0"
| "argmin (d # ds) = (if d \<le> ds ! argmin ds then 0 else Suc (argmin ds))"

record match_result =
  res_student_id :: string
  res_name :: string
  res_status :: string
  res_confidence :: real

datatype error = IndexError

text \<open>
  The body of the loop over the detected faces in \<open>mark_attendance\<close>. Indexing a Python
  list out of range raises IndexError, which leaves the request without any write.
\<close>

definition match_face ::
  "('file, 'image, 'loc) provider \<Rightarrow> system \<Rightarrow> encoding \<Rightarrow> error + match_result option" where
  "match_face P s face_encoding =
     (let matches = compare_faces P (known_face_encodings s) face_encoding;
          face_distances = face_distance P (known_face_encodings s) face_encoding
      in if length face_distances > 0 then
           (let best_match_index = argmin face_distances
            in if length matches \<le> best_match_index then Inl IndexError
               else if matches ! best_match_index then
                 (if length (known_face_ids s) \<le> best_match_index then Inl IndexError
                  else
                    (let student_id = known_face_ids s ! best_match_index;
                         student_name = (case select_name (database s) student_id of
                                           Some n \<Rightarrow> n | None \<Rightarrow> ''Unknown'')
                     in Inr (Some \<lparr>res_student_id = student_id, res_name = student_name,
                                   res_status = ''Present'',
                                   res_confidence = 1 - face_distances ! best_match_index\<rparr>)))
               else Inr None)
         else Inr None)"

fun match_faces ::
  "('file, 'image, 'loc) provider \<Rightarrow> system \<Rightarrow> encoding list
     \<Rightarrow> string list \<times> match_result list \<Rightarrow> error + (string list \<times> match_result list)" where
  "match_faces P s [] acc = Inr acc"
| "match_faces P s (e # es) (present_students, attendance_results) =
     (case match_face P s e of
        Inl err \<Rightarrow> Inl err
      | Inr None \<Rightarrow> match_faces P s es (present_students, attendance_results)
      | Inr (Some r) \<Rightarrow>
          match_faces P s es
            (present_students @ [res_student_id r], attendance_results @ [r]))"

text \<open>
  The roster sweep: one INSERT OR REPLACE per row of \<open>SELECT student_id FROM students\<close>.
  SQLite answers that query from the index of the UNIQUE column, so the rows come in the
  order of \<open>student_id\<close> (the reload of the cache reads three columns and gets the rows
  in rowid order).
\<close>

definition sweep :: "string list \<Rightarrow> string \<Rightarrow> timestamp \<Rightarrow> string list \<Rightarrow> db \<Rightarrow> db" where
  "sweep present_students today now all_students d =
     fold (\<lambda>student_id d'.
             insert_or_replace_attendance d' (Some student_id) (Some today)
               (Some (if student_id \<in> set present_students then ''Present'' else ''Absent''))
               now)
          all_students d"

datatype ('file, 'image) image_source = FromFile 'file | LiveFeed 'image

definition AttendanceSystem_mark_attendance ::
  "('file, 'image, 'loc) provider \<Rightarrow> string \<Rightarrow> timestamp \<Rightarrow> system
     \<Rightarrow> ('file, 'image) image_source \<Rightarrow> error + (match_result list \<times> system)" where
  "AttendanceSystem_mark_attendance P today now s src =
     (let image = (case src of LiveFeed img \<Rightarrow> img | FromFile f \<Rightarrow> load_image_file P f);
          locs = face_locations P image;
          encs = face_encodings P image (Some locs)
      in case match_faces P s encs ([], []) of
           Inl err \<Rightarrow> Inl err
         | Inr (present_students, attendance_results) \<Rightarrow>
             Inr (attendance_results,
                  s\<lparr>database := sweep present_students today now
                                   (sort (map st_student_id (students (database s))))
                                   (database s)\<rparr>))"

section \<open>The HTTP handlers\<close>

record attendance_entry =
  ent_student_id :: string
  ent_name :: string
  ent_status :: string
  ent_timestamp :: "timestamp option"

datatype body =
    SuccessMessage bool string
  | MarkResults bool "match_result list" nat string
  | AttendanceList string "attendance_entry list"
  | CsvText string

record response =
  resp_code :: nat
  resp_headers :: "(string \<times> string) list"
  resp_body :: body

text \<open>\<open>jsonify(...)\<close> returned from a view: status 200.\<close>

definition jsonify :: "body \<Rightarrow> response" where
  "jsonify b = \<lparr>resp_code = 200, resp_headers = [(''Content-Type'', ''application/json'')],
                resp_body = b\<rparr>"

text \<open>Python's \<open>v or default\<close> on a value that is None or a string.\<close>

definition or_default :: "string option \<Rightarrow> string \<Rightarrow> string" where
  "or_default v dflt = (case v of None \<Rightarrow> dflt | Some t \<Rightarrow> if t = [] then dflt else t)"

fun str_nat :: "nat \<Rightarrow> string" where
  "str_nat n =
     (if n < 10 then [char_of (48 + n)]
      else str_nat (n div 10) @ [char_of (48 + n mod 10)])"

declare str_nat.simps [simp del]

record 'file register_request =
  reg_image :: "'file option"
  reg_student_id :: "string option"
  reg_name :: "string option"

definition register_student ::
  "('file, 'image, 'loc) provider \<Rightarrow> timestamp \<Rightarrow> system \<Rightarrow> 'file register_request
     \<Rightarrow> response \<times> system" where
  "register_student P now s req =
     (case reg_image req of
        None \<Rightarrow> (jsonify (SuccessMessage False ''No image provided''), s)
      | Some image_file \<Rightarrow>
          (if or_default (reg_student_id req) [] = [] \<or> or_default (reg_name req) [] = []
           then (jsonify (SuccessMessage False ''Student ID and name are required''), s)
           else
             (let ((success, message), s') =
                    AttendanceSystem_register_student P now s
                      (or_default (reg_student_id req) []) (or_default (reg_name req) [])
                      image_file
              in (jsonify (SuccessMessage success message), s'))))"

definition mark_attendance ::
  "('file, 'image, 'loc) provider \<Rightarrow> string \<Rightarrow> timestamp \<Rightarrow> system \<Rightarrow> 'file option
     \<Rightarrow> error + (response \<times> system)" where
  "mark_attendance P today now s req_image =
     (case req_image of
        None \<Rightarrow> Inr (jsonify (SuccessMessage False ''No image provided''), s)
      | Some image_file \<Rightarrow>
          (case AttendanceSystem_mark_attendance P today now s (FromFile image_file) of
             Inl err \<Rightarrow> Inl err
           | Inr (results, s') \<Rightarrow>
               Inr (jsonify (MarkResults True results (length results)
                              (''Attendance marked for '' @ str_nat (length results)
                                 @ '' students'')),
                    s')))"

definition attendance_data :: "(student_row \<times> attendance_row option) list \<Rightarrow> attendance_entry list" where
  "attendance_data records =
     map (\<lambda>(s, a). \<lparr>ent_student_id = st_student_id s, ent_name = st_name s,
                     ent_status = or_default (case a of None \<Rightarrow> None | Some r \<Rightarrow> at_status r)
                                    ''Not Recorded'',
                     ent_timestamp = (case a of None \<Rightarrow> None | Some r \<Rightarrow> Some (at_timestamp r))\<rparr>)
         records"

definition get_attendance :: "system \<Rightarrow> string \<Rightarrow> response" where
  "get_attendance s dt =
     jsonify (AttendanceList dt
       (attendance_data (left_join_attendance index_order_status_timestamp (database s) dt)))"

text \<open>
  \<open>update_attendance\<close>: \<open>data.get\<close> gives None for a key that the JSON body does not
  have (or has as null); the three values are bound to the statement as they are. A
  value that is present is taken to be a JSON string.
\<close>

record update_request =
  upd_student_id :: "string option"
  upd_date :: "string option"
  upd_status :: "string option"

definition update_attendance :: "timestamp \<Rightarrow> system \<Rightarrow> update_request \<Rightarrow> response \<times> system" where
  "update_attendance now s data =
     (jsonify (SuccessMessage True ''Attendance updated''),
      s\<lparr>database := insert_or_replace_attendance (database s)
                       (upd_student_id data) (upd_date data) (upd_status data) now\<rparr>)"

definition csv_line :: "string \<Rightarrow> student_row \<times> attendance_row option \<Rightarrow> string" where
  "csv_line dt record =
     st_student_id (fst record) @ '','' @ st_name (fst record) @ '',''
       @ or_default (case snd record of None \<Rightarrow> None | Some r \<Rightarrow> at_status r) ''Not Recorded''
       @ '','' @ dt @ [CHR 0x0A]"

definition csv_data :: "string \<Rightarrow> (student_row \<times> attendance_row option) list \<Rightarrow> string" where
  "csv_data dt records =
     foldl (\<lambda>acc record. acc @ csv_line dt record)
       (''Student ID,Name,Status,Date'' @ [CHR 0x0A]) records"

definition export_attendance :: "system \<Rightarrow> string \<Rightarrow> response" where
  "export_attendance s dt =
     \<lparr>resp_code = 200,
      resp_headers = [(''Content-Type'', ''text/csv''),
                      (''Content-Disposition'',
                       ''attachment; filename=attendance_'' @ dt @ ''.csv'')],
      resp_body = CsvText (csv_data dt (left_join_attendance index_order_status (database s) dt))\<rparr>"

section \<open>Notions used to state the properties\<close>

text \<open>The columns of an attendance row that the statements write, without the rowid.\<close>

definition row_data :: "attendance_row \<Rightarrow> string option \<times> string option \<times> string option \<times> timestamp" where
  "row_data a = (at_student_id a, at_date a, at_status a, at_timestamp a)"

text \<open>
  The contract of the library: \<open>compare_faces\<close> and \<open>face_distance\<close> return one entry per
  known encoding.
\<close>

definition provider_ok :: "('file, 'image, 'loc) provider \<Rightarrow> bool" where
  "provider_ok P =
     (\<forall>known e. length (compare_faces P known e) = length known
                \<and> length (face_distance P known e) = length known)"

text \<open>
  A provider for the worked examples: an image file is the list of the embeddings of its
  faces, the distance of two embeddings is the sum of the absolute differences of their
  components, and two embeddings match at a distance of at most 0.6.
\<close>

definition stub_provider :: "(encoding list, encoding list, nat) provider" where
  "stub_provider =
     \<lparr>load_image_file = (\<lambda>f. f),
      face_locations = (\<lambda>img. [0..<length img]),
      face_encodings = (\<lambda>img locs. img),
      compare_faces = (\<lambda>known e. map (\<lambda>k. sum_list (map2 (\<lambda>a b. \<bar>a - b\<bar>) k e) \<le> 6 / 10) known),
      face_distance = (\<lambda>known e. map (\<lambda>k. sum_list (map2 (\<lambda>a b. \<bar>a - b\<bar>) k e)) known)\<rparr>"

text \<open>
  The roster of the worked examples: Bob (id B, embedding (0, 0)) and then Ann (id A,
  embedding (1, 1)) are registered on an empty database.
\<close>

definition example_roster :: system where
  "example_roster =
     snd (register_student stub_provider ''t2''
            (snd (register_student stub_provider ''t1'' (AttendanceSystem_init init_db)
                    \<lparr>reg_image = Some [[0, 0]], reg_student_id = Some ''B'',
                     reg_name = Some ''Bob''\<rparr>))
            \<lparr>reg_image = Some [[1, 1]], reg_student_id = Some ''A'', reg_name = Some ''Ann''\<rparr>)"

text \<open>
  The roster after one manual update: Bob is Present on 2024-01-02, Ann has no row.
\<close>

definition example_partly_marked :: system where
  "example_partly_marked =
     snd (update_attendance ''t3'' example_roster
            \<lparr>upd_student_id = Some ''B'', upd_date = Some ''2024-01-02'',
             upd_status = Some ''Present''\<rparr>)"

text \<open>
  A database in which one student row has no encoding (such a row is not written by
  \<open>register_student\<close>; the schema allows it).
\<close>

definition example_unencoded :: system where
  "example_unencoded =
     \<lparr>database =
        \<lparr>students =
           [\<lparr>st_id = 1, st_student_id = ''B'', st_name = ''Bob'',
             st_face_encoding = JsonText [0, 0], st_created_at = ''t1''\<rparr>,
            \<lparr>st_id = 2, st_student_id = ''N'', st_name = ''Nell'',
             st_face_encoding = SqlNull, st_created_at = ''t2''\<rparr>],
         students_seq = 2, attendance = [], attendance_seq = 0\<rparr>,
      known_face_encodings = [],
      known_face_ids = []\<rparr>"

text \<open>
  The example roster after \<open>mark_attendance\<close> on 2024-01-01 with an image of Bob.
\<close>

definition example_first_mark :: system where
  "example_first_mark =
     example_roster\<lparr>database := (database example_roster)
       \<lparr>attendance :=
          [\<lparr>at_id = 1, at_student_id = Some ''A'', at_date = Some ''2024-01-01'',
            at_status = Some ''Absent'', at_timestamp = ''t3''\<rparr>,
           \<lparr>at_id = 2, at_student_id = Some ''B'', at_date = Some ''2024-01-01'',
            at_status = Some ''Present'', at_timestamp = ''t3''\<rparr>],
        attendance_seq := 2\<rparr>\<rparr>"

text \<open>
  The same after a second \<open>mark_attendance\<close> on that day, with an image of Ann.
\<close>

definition example_second_mark :: system where
  "example_second_mark =
     example_roster\<lparr>database := (database example_roster)
       \<lparr>attendance :=
          [\<lparr>at_id = 1, at_student_id = Some ''A'', at_date = Some ''2024-01-01'',
            at_status = Some ''Absent'', at_timestamp = ''t3''\<rparr>,
           \<lparr>at_id = 2, at_student_id = Some ''B'', at_date = Some ''2024-01-01'',
            at_status = Some ''Present'', at_timestamp = ''t3''\<rparr>,
           \<lparr>at_id = 3, at_student_id = Some ''A'', at_date = Some ''2024-01-01'',
            at_status = Some ''Present'', at_timestamp = ''t4''\<rparr>,
           \<lparr>at_id = 4, at_student_id = Some ''B'', at_date = Some ''2024-01-01'',
            at_status = Some ''Absent'', at_timestamp = ''t4''\<rparr>],
        attendance_seq := 4\<rparr>\<rparr>"

section \<open>The store: inserted rows\<close>

lemma fold_max_ge: "a \<le> fold max ids (a::nat)"
  by (induction ids arbitrary: a) (auto intro: order_trans [OF max.cobounded2])

lemma fold_max_mem: "x \<in> set ids \<Longrightarrow> x \<le> fold max ids (a::nat)"
proof (induction ids arbitrary: a)
  case Nil
  then show ?case by simp
next
  case (Cons i ids)
  show ?case
  proof (cases "x = i")
    case True
    have "i \<le> max i a" by simp
    also have "\<dots> \<le> fold max ids (max i a)" by (rule fold_max_ge)
    finally show ?thesis using True by simp
  next
    case False
    with Cons show ?thesis by simp
  qed
qed

lemma next_rowid_fresh: "x \<in> set ids \<Longrightarrow> x \<noteq> next_rowid seq ids"
  using fold_max_mem [of x ids 0] by (simp add: next_rowid_def)

lemma attendance_insert:
  "attendance (insert_or_replace_attendance d sid dt st now)
     = attendance d @ [\<lparr>at_id = next_rowid (attendance_seq d) (map at_id (attendance d)),
                         at_student_id = sid, at_date = dt, at_status = st, at_timestamp = now\<rparr>]"
proof -
  let ?i = "next_rowid (attendance_seq d) (map at_id (attendance d))"
  have "at_id a \<noteq> ?i" if "a \<in> set (attendance d)" for a
    using that by (intro next_rowid_fresh) simp
  then have "filter (\<lambda>a. at_id a \<noteq> ?i) (attendance d) = attendance d"
    by (intro filter_True) blast
  then show ?thesis
    by (simp add: insert_or_replace_attendance_def Let_def)
qed

lemma students_insert_attendance [simp]:
  "students (insert_or_replace_attendance d sid dt st now) = students d"
  by (simp add: insert_or_replace_attendance_def Let_def)

lemma sweep_students [simp]: "students (sweep present today now ids d) = students d"
  unfolding sweep_def by (induction ids arbitrary: d) simp_all

lemma sweep_attendance:
  "map row_data (attendance (sweep present today now ids d))
     = map row_data (attendance d)
       @ map (\<lambda>sid. (Some sid, Some today,
                      Some (if sid \<in> set present then ''Present'' else ''Absent''), now)) ids"
  unfolding sweep_def
  by (induction ids arbitrary: d) (simp_all add: attendance_insert row_data_def)

lemma sweep_length:
  "length (attendance (sweep present today now ids d)) = length (attendance d) + length ids"
  using arg_cong [OF sweep_attendance, of length present today now ids d] by simp

section \<open>Registration\<close>

text \<open>
  C3. When the provider finds no face in the image, \<open>AttendanceSystem.register_student\<close>
  returns \<open>(False, "No face detected in the image")\<close> and the handler answers with that
  message (or with the validation message, when a field is empty); the state, with the
  students table in it, is unchanged.
\<close>

theorem register_no_face:
  assumes "face_encodings P (load_image_file P image_file) None = []"
  shows "AttendanceSystem_register_student P now s student_id nm image_file
           = ((False, ''No face detected in the image''), s)
         \<and> register_student P now s
             \<lparr>reg_image = Some image_file, reg_student_id = Some student_id, reg_name = Some nm\<rparr>
           = (jsonify (SuccessMessage False
                 (if student_id = [] \<or> nm = [] then ''Student ID and name are required''
                  else ''No face detected in the image'')), s)"
  using assms
  by (simp add: AttendanceSystem_register_student_def register_student_def or_default_def)

theorem register_no_face_witness:
  "face_encodings stub_provider (load_image_file stub_provider []) None = []
   \<and> AttendanceSystem_register_student stub_provider ''t1'' (AttendanceSystem_init init_db)
        ''S1'' ''Ann'' []
       = ((False, ''No face detected in the image''), AttendanceSystem_init init_db)
   \<and> students (database (snd (register_student stub_provider ''t1'' (AttendanceSystem_init init_db)
        \<lparr>reg_image = Some [], reg_student_id = Some ''S1'', reg_name = Some ''Ann''\<rparr>))) = []"
proof -
  have h: "face_encodings stub_provider (load_image_file stub_provider []) None = []"
    by (simp add: stub_provider_def)
  show ?thesis
    using h register_no_face [OF h, of "''t1''" "AttendanceSystem_init init_db" "''S1''" "''Ann''"]
    by (simp add: AttendanceSystem_init_def init_db_def load_known_faces_def)
qed

section \<open>Re-registration\<close>

lemma students_insert_filter:
  "filter (\<lambda>r. st_student_id r = sid) (students (insert_or_replace_student d sid nm enc now))
     = [\<lparr>st_id = next_rowid (students_seq d) (map st_id (students d)), st_student_id = sid,
         st_name = nm, st_face_encoding = enc, st_created_at = now\<rparr>]"
proof -
  have "filter (\<lambda>r. st_student_id r = sid) (filter (\<lambda>r. st_id r \<noteq> i \<and> st_student_id r \<noteq> sid) rows) = []"
    for i and rows :: "student_row list"
    by (induction rows) simp_all
  then show ?thesis
    by (simp add: insert_or_replace_student_def Let_def)
qed

lemma students_insert_others:
  "sid' \<noteq> sid \<Longrightarrow>
   filter (\<lambda>r. st_student_id r = sid') (students (insert_or_replace_student d sid nm enc now))
     = filter (\<lambda>r. st_student_id r = sid') (students d)"
proof -
  let ?i = "next_rowid (students_seq d) (map st_id (students d))"
  assume ne: "sid' \<noteq> sid"
  have "st_id r \<noteq> ?i" if "r \<in> set (students d)" for r
    using that by (intro next_rowid_fresh) simp
  then have "filter (\<lambda>r. st_student_id r = sid') (filter (\<lambda>r. st_id r \<noteq> ?i \<and> st_student_id r \<noteq> sid) (students d))
               = filter (\<lambda>r. st_student_id r = sid') (students d)"
    using ne by (auto intro!: filter_cong)
  then show ?thesis
    using ne by (simp add: insert_or_replace_student_def Let_def)
qed

lemma students_unique_insert:
  assumes "distinct (map st_student_id (students d))"
  shows "distinct (map st_student_id (students (insert_or_replace_student d sid nm enc now)))"
proof -
  have "distinct (map st_student_id (filter Q (students d)))" for Q
    using assms by (rule distinct_map_filter)
  moreover have "sid \<notin> st_student_id ` set (filter (\<lambda>r. st_id r \<noteq> i \<and> st_student_id r \<noteq> sid) (students d))" for i
    by auto
  ultimately show ?thesis
    by (simp add: insert_or_replace_student_def Let_def)
qed

lemma load_rows_length: "length (snd (load_rows rs)) = length (fst (load_rows rs))"
  by (induction rs) (simp_all split: face_cell.splits)

lemma load_rows_ids:
  "snd (load_rows rs)
     = map st_student_id (filter (\<lambda>r. \<exists>e. st_face_encoding r = JsonText e) rs)"
  by (induction rs) (simp_all split: face_cell.splits)

lemma load_rows_zip_filter:
  "filter (\<lambda>p. fst p = sid) (zip (snd (load_rows rs)) (fst (load_rows rs)))
     = concat (map (\<lambda>r. case st_face_encoding r of JsonText e \<Rightarrow> [(sid, e)] | _ \<Rightarrow> [])
                 (filter (\<lambda>r. st_student_id r = sid) rs))"
  by (induction rs) (simp_all split: face_cell.splits)

lemma register_success:
  assumes "face_encodings P (load_image_file P image_file) None = e # es"
  shows "AttendanceSystem_register_student P now s sid nm image_file
           = ((True, ''Student registered successfully''),
              load_known_faces
                (s\<lparr>database := insert_or_replace_student (database s) sid nm (JsonText e) now\<rparr>))"
  using assms by (simp add: AttendanceSystem_register_student_def)

lemma register_replaces:
  assumes "face_encodings P (load_image_file P image_file) None = e # es"
  shows "let s' = snd (AttendanceSystem_register_student P now s sid nm image_file)
         in filter (\<lambda>r. st_student_id r = sid) (students (database s'))
              = [\<lparr>st_id = next_rowid (students_seq (database s)) (map st_id (students (database s))),
                  st_student_id = sid, st_name = nm, st_face_encoding = JsonText e,
                  st_created_at = now\<rparr>]
            \<and> filter (\<lambda>p. fst p = sid) (zip (known_face_ids s') (known_face_encodings s'))
              = [(sid, e)]"
  by (simp add: register_success [OF assms] load_known_faces_def load_rows_zip_filter
      students_insert_filter)

text \<open>
  C4. Registering the same \<open>student_id\<close> twice, each time with an image in which a face
  is found: both calls succeed; afterwards the students table holds exactly one row for
  that id, with the name and the embedding of the second call; the cache is the reload of
  that table, and holds exactly one entry for the id, the second embedding, so that a
  later match for the id is a match against the latest embedding only.
\<close>

theorem register_twice_keeps_latest:
  assumes "face_encodings P (load_image_file P image1) None = e1 # es1"
    and "face_encodings P (load_image_file P image2) None = e2 # es2"
  shows "let r1 = AttendanceSystem_register_student P now1 s sid name1 image1;
             r2 = AttendanceSystem_register_student P now2 (snd r1) sid name2 image2
         in fst r1 = (True, ''Student registered successfully'')
          \<and> fst r2 = (True, ''Student registered successfully'')
          \<and> map (\<lambda>r. (st_name r, st_face_encoding r))
                (filter (\<lambda>r. st_student_id r = sid) (students (database (snd r2))))
              = [(name2, JsonText e2)]
          \<and> snd r2 = load_known_faces (snd r2)
          \<and> filter (\<lambda>p. fst p = sid)
                (zip (known_face_ids (snd r2)) (known_face_encodings (snd r2)))
              = [(sid, e2)]"
proof -
  let ?s1 = "snd (AttendanceSystem_register_student P now1 s sid name1 image1)"
  have "fst (AttendanceSystem_register_student P now1 s sid name1 image1)
          = (True, ''Student registered successfully'')"
    by (simp add: register_success [OF assms(1)])
  moreover have "fst (AttendanceSystem_register_student P now2 ?s1 sid name2 image2)
          = (True, ''Student registered successfully'')"
    by (simp add: register_success [OF assms(2)])
  moreover have "snd (AttendanceSystem_register_student P now2 ?s1 sid name2 image2)
          = load_known_faces (snd (AttendanceSystem_register_student P now2 ?s1 sid name2 image2))"
    by (simp add: register_success [OF assms(2)] load_known_faces_def)
  moreover note register_replaces [OF assms(2), of now2 ?s1 sid name2]
  ultimately show ?thesis
    by (simp add: Let_def)
qed


theorem register_twice_keeps_latest_witness:
  "face_encodings stub_provider (load_image_file stub_provider [[0, 0]]) None = [[0, 0]]
   \<and> face_encodings stub_provider (load_image_file stub_provider [[1, 1]]) None = [[1, 1]]
   \<and> (let r1 = AttendanceSystem_register_student stub_provider ''t1''
                  (AttendanceSystem_init init_db) ''S1'' ''Ann'' [[0, 0]];
            r2 = AttendanceSystem_register_student stub_provider ''t2'' (snd r1)
                  ''S1'' ''Ann B'' [[1, 1]]
        in map (\<lambda>r. (st_name r, st_face_encoding r))
             (filter (\<lambda>r. st_student_id r = ''S1'') (students (database (snd r2))))
             = [(''Ann B'', JsonText [1, 1])]
         \<and> filter (\<lambda>p. fst p = ''S1'')
             (zip (known_face_ids (snd r2)) (known_face_encodings (snd r2)))
             = [(''S1'', [1, 1])]
         \<and> length (students (database (snd r2))) = 1)"
proof -
  have h1: "face_encodings stub_provider (load_image_file stub_provider [[0, 0]]) None
              = [0, 0] # []"
    by (simp add: stub_provider_def)
  have h2: "face_encodings stub_provider (load_image_file stub_provider [[1, 1]]) None
              = [1, 1] # []"
    by (simp add: stub_provider_def)
  have n: "length (students (database (snd (AttendanceSystem_register_student stub_provider
             ''t2'' (snd (AttendanceSystem_register_student stub_provider ''t1''
                (AttendanceSystem_init init_db) ''S1'' ''Ann'' [[0, 0]]))
             ''S1'' ''Ann B'' [[1, 1]])))) = 1"
    by (simp add: register_success [OF h1] register_success [OF h2] load_known_faces_def
        insert_or_replace_student_def AttendanceSystem_init_def init_db_def next_rowid_def)
  show ?thesis
    using h1 h2 n
      register_twice_keeps_latest [OF h1 h2, of "''t1''" "AttendanceSystem_init init_db"
        "''S1''" "''Ann''" "''t2''" "''Ann B''"]
    by (simp add: Let_def)
qed

section \<open>Matching faces\<close>

lemma argmin_less: "ds \<noteq> [] \<Longrightarrow> argmin ds < length ds"
  by (induction ds rule: argmin.induct) simp_all

lemma argmin_least: "x \<in> set ds \<Longrightarrow> ds ! argmin ds \<le> x"
proof (induction ds rule: argmin.induct)
  case 1
  then show ?case by simp
next
  case (2 d)
  then show ?case by simp
next
  case (3 d v va)
  show ?case
  proof (cases "x = d")
    case True
    then show ?thesis by auto
  next
    case False
    with 3 have "(v # va) ! argmin (v # va) \<le> x" by simp
    then show ?thesis by auto
  qed
qed

lemma argmin_Min: "ds \<noteq> [] \<Longrightarrow> ds ! argmin ds = Min (set ds)"
proof -
  assume ne: "ds \<noteq> []"
  then have "ds ! argmin ds \<in> set ds"
    by (simp add: argmin_less)
  with ne show ?thesis
    by (intro Min_eqI [symmetric]) (auto intro: argmin_least)
qed

lemma argmin_first: "j < argmin ds \<Longrightarrow> ds ! argmin ds < ds ! j"
proof (induction ds arbitrary: j rule: argmin.induct)
  case 1
  then show ?case by simp
next
  case (2 d)
  then show ?case by simp
next
  case (3 d v va)
  show ?case
  proof (cases "d \<le> (v # va) ! argmin (v # va)")
    case True
    with 3 show ?thesis by simp
  next
    case False
    show ?thesis
    proof (cases j)
      case 0
      with False show ?thesis by simp
    next
      case (Suc k)
      with 3 False show ?thesis by simp
    qed
  qed
qed


lemma match_face_total:
  assumes "provider_ok P" and "length (known_face_ids s) = length (known_face_encodings s)"
  shows "match_face P s e
           = Inr (if face_distance P (known_face_encodings s) e \<noteq> []
                     \<and> compare_faces P (known_face_encodings s) e
                         ! argmin (face_distance P (known_face_encodings s) e)
                  then Some \<lparr>res_student_id =
                               known_face_ids s ! argmin (face_distance P (known_face_encodings s) e),
                             res_name =
                               (case select_name (database s)
                                       (known_face_ids s
                                          ! argmin (face_distance P (known_face_encodings s) e)) of
                                  Some n \<Rightarrow> n | None \<Rightarrow> ''Unknown''),
                             res_status = ''Present'',
                             res_confidence =
                               1 - face_distance P (known_face_encodings s) e
                                     ! argmin (face_distance P (known_face_encodings s) e)\<rparr>
                  else None)"
proof (cases "face_distance P (known_face_encodings s) e = []")
  case True
  then show ?thesis by (simp add: match_face_def)
next
  case False
  then have "argmin (face_distance P (known_face_encodings s) e)
               < length (face_distance P (known_face_encodings s) e)"
    by (rule argmin_less)
  moreover have "length (face_distance P (known_face_encodings s) e)
                   = length (known_face_encodings s)"
    and "length (compare_faces P (known_face_encodings s) e) = length (known_face_encodings s)"
    using assms(1) by (simp_all add: provider_ok_def)
  ultimately show ?thesis
    using False assms(2) by (simp add: match_face_def Let_def)
qed

lemma match_faces_collect:
  assumes "\<And>e. e \<in> set es \<Longrightarrow> match_face P s e = Inr (hit e)"
  shows "match_faces P s es (present, results)
           = Inr (present @ map res_student_id (List.map_filter hit es),
                  results @ List.map_filter hit es)"
  using assms
proof (induction es arbitrary: present results)
  case Nil
  then show ?case by (simp add: List.map_filter_simps)
next
  case (Cons e es)
  have e: "match_face P s e = Inr (hit e)"
    by (rule Cons.prems) simp
  have rest: "match_faces P s es (p, r)
                = Inr (p @ map res_student_id (List.map_filter hit es),
                       r @ List.map_filter hit es)" for p r
    by (rule Cons.IH) (simp add: Cons.prems)
  show ?case
    by (cases "hit e") (simp_all add: e rest List.map_filter_simps)
qed

lemma match_faces_sound:
  assumes "match_faces P s es acc = Inr (present, results)" and "r \<in> set results"
  shows "r \<in> set (snd acc) \<or> (\<exists>e \<in> set es. match_face P s e = Inr (Some r))"
  using assms
proof (induction es arbitrary: acc)
  case Nil
  then show ?case by auto
next
  case (Cons e es)
  obtain p rs where acc: "acc = (p, rs)" by (cases acc)
  show ?case
  proof (cases "match_face P s e")
    case (Inl err)
    with Cons.prems acc show ?thesis by simp
  next
    case (Inr hit)
    show ?thesis
    proof (cases hit)
      case None
      with Cons.prems acc Inr have "match_faces P s es (p, rs) = Inr (present, results)"
        by simp
      from Cons.IH [OF this Cons.prems(2)] acc show ?thesis by auto
    next
      case (Some r')
      with Cons.prems acc Inr
      have "match_faces P s es (p @ [res_student_id r'], rs @ [r']) = Inr (present, results)"
        by simp
      from Cons.IH [OF this Cons.prems(2)] acc Inr Some show ?thesis by auto
    qed
  qed
qed

lemma match_face_Some:
  assumes "match_face P s e = Inr (Some r)"
  shows "face_distance P (known_face_encodings s) e \<noteq> []
         \<and> compare_faces P (known_face_encodings s) e
             ! argmin (face_distance P (known_face_encodings s) e)
         \<and> res_student_id r
             = known_face_ids s ! argmin (face_distance P (known_face_encodings s) e)
         \<and> argmin (face_distance P (known_face_encodings s) e) < length (known_face_ids s)
         \<and> res_status r = ''Present''
         \<and> res_confidence r
             = 1 - face_distance P (known_face_encodings s) e
                     ! argmin (face_distance P (known_face_encodings s) e)"
  using assms by (auto simp: match_face_def Let_def split: if_splits)


lemma example_roster_eq:
  "example_roster =
     \<lparr>database =
        \<lparr>students =
           [\<lparr>st_id = 1, st_student_id = ''B'', st_name = ''Bob'',
             st_face_encoding = JsonText [0, 0], st_created_at = ''t1''\<rparr>,
            \<lparr>st_id = 2, st_student_id = ''A'', st_name = ''Ann'',
             st_face_encoding = JsonText [1, 1], st_created_at = ''t2''\<rparr>],
         students_seq = 2, attendance = [], attendance_seq = 0\<rparr>,
      known_face_encodings = [[0, 0], [1, 1]],
      known_face_ids = [''B'', ''A'']\<rparr>"
  by (simp add: example_roster_def register_student_def AttendanceSystem_register_student_def
      stub_provider_def AttendanceSystem_init_def init_db_def load_known_faces_def
      insert_or_replace_student_def next_rowid_def or_default_def)

lemma stub_provider_ok: "provider_ok stub_provider"
  by (simp add: provider_ok_def stub_provider_def)

text \<open>
  C5. With a non-empty cache (and a provider that answers with one entry per known
  encoding), every detected face selects the index of the first least distance; the face
  yields a Present result for the identity at that index exactly when the boolean
  decision of \<open>compare_faces\<close> at that same index is true, and yields nothing otherwise.
  Hence the results of the call are those of the faces whose decision holds, in order,
  and the roster sweep, which runs in the order of \<open>student_id\<close>, writes Present for
  exactly the identities so selected.
\<close>

theorem mark_attendance_best_match_decides:
  assumes "provider_ok P"
    and "length (known_face_ids s) = length (known_face_encodings s)"
    and "known_face_encodings s \<noteq> []"
  shows "let K = known_face_encodings s;
             best = (\<lambda>e. argmin (face_distance P K e));
             decision = (\<lambda>e. compare_faces P K e ! best e);
             hit = (\<lambda>e. \<lparr>res_student_id = known_face_ids s ! best e,
                          res_name = (case select_name (database s) (known_face_ids s ! best e) of
                                        Some n \<Rightarrow> n | None \<Rightarrow> ''Unknown''),
                          res_status = ''Present'',
                          res_confidence = 1 - face_distance P K e ! best e\<rparr>);
             image = (case src of LiveFeed img \<Rightarrow> img | FromFile f \<Rightarrow> load_image_file P f);
             encs = face_encodings P image (Some (face_locations P image))
         in (\<forall>e. best e < length K
                \<and> face_distance P K e ! best e = Min (set (face_distance P K e)))
          \<and> (\<forall>e. match_face P s e = Inr (if decision e then Some (hit e) else None))
          \<and> (\<exists>s'. AttendanceSystem_mark_attendance P today now s src
                       = Inr (map hit (filter decision encs), s')
                  \<and> students (database s') = students (database s)
                  \<and> map row_data (attendance (database s'))
                      = map row_data (attendance (database s))
                        @ map (\<lambda>sid. (Some sid, Some today,
                                       Some (if \<exists>e \<in> set encs. decision e
                                                  \<and> known_face_ids s ! best e = sid
                                             then ''Present'' else ''Absent''),
                                       now))
                            (sort (map st_student_id (students (database s)))))"
proof -
  let ?K = "known_face_encodings s"
  let ?best = "\<lambda>e. argmin (face_distance P ?K e)"
  let ?decision = "\<lambda>e. compare_faces P ?K e ! ?best e"
  let ?hit = "\<lambda>e. \<lparr>res_student_id = known_face_ids s ! ?best e,
                    res_name = (case select_name (database s) (known_face_ids s ! ?best e) of
                                  Some n \<Rightarrow> n | None \<Rightarrow> ''Unknown''),
                    res_status = ''Present'',
                    res_confidence = 1 - face_distance P ?K e ! ?best e\<rparr>"
  let ?image = "case src of LiveFeed img \<Rightarrow> img | FromFile f \<Rightarrow> load_image_file P f"
  let ?encs = "face_encodings P ?image (Some (face_locations P ?image))"
  have ne: "face_distance P ?K e \<noteq> []" for e
  proof -
    have "length (face_distance P ?K e) = length ?K"
      using assms(1) by (simp add: provider_ok_def)
    with assms(3) show ?thesis by auto
  qed
  have len: "length (face_distance P ?K e) = length ?K" for e
    using assms(1) by (simp add: provider_ok_def)
  have a: "?best e < length ?K \<and> face_distance P ?K e ! ?best e = Min (set (face_distance P ?K e))"
    for e
    using argmin_less [OF ne [of e]] argmin_Min [OF ne [of e]] len [of e] by simp
  have b: "match_face P s e = Inr (if ?decision e then Some (?hit e) else None)" for e
    using match_face_total [OF assms(1,2), of e] ne [of e] by simp
  have hits: "List.map_filter (\<lambda>e. if ?decision e then Some (?hit e) else None) es
                = map ?hit (filter ?decision es)" for es
    by (induction es) (simp_all add: List.map_filter_simps)
  have c: "match_faces P s ?encs ([], [])
             = Inr (map res_student_id (map ?hit (filter ?decision ?encs)),
                    map ?hit (filter ?decision ?encs))"
    using match_faces_collect [of ?encs P s "\<lambda>e. if ?decision e then Some (?hit e) else None" "[]" "[]"]
      b hits by simp
  define pres where "pres = map res_student_id (map ?hit (filter ?decision ?encs))"
  have mem: "(sid \<in> set pres)
               = (\<exists>e \<in> set ?encs. ?decision e \<and> known_face_ids s ! ?best e = sid)" for sid
    by (auto simp: pres_def image_iff)
  let ?s' = "s\<lparr>database := sweep pres today now
                               (sort (map st_student_id (students (database s)))) (database s)\<rparr>"
  have d: "AttendanceSystem_mark_attendance P today now s src
             = Inr (map ?hit (filter ?decision ?encs), ?s')"
    by (simp add: AttendanceSystem_mark_attendance_def Let_def c pres_def)
  have e: "map row_data (attendance (database ?s'))
             = map row_data (attendance (database s))
               @ map (\<lambda>sid. (Some sid, Some today,
                              Some (if \<exists>e \<in> set ?encs. ?decision e
                                         \<and> known_face_ids s ! ?best e = sid
                                    then ''Present'' else ''Absent''),
                              now))
                   (sort (map st_student_id (students (database s))))"
  proof -
    have "map row_data (attendance (database ?s'))
            = map row_data (attendance (sweep pres today now
                (sort (map st_student_id (students (database s)))) (database s)))"
      by simp
    also have "\<dots> = map row_data (attendance (database s))
                 @ map (\<lambda>sid. (Some sid, Some today,
                          Some (if sid \<in> set pres then ''Present'' else ''Absent''), now))
                     (sort (map st_student_id (students (database s))))"
      by (rule sweep_attendance)
    also have "\<dots> = map row_data (attendance (database s))
               @ map (\<lambda>sid. (Some sid, Some today,
                              Some (if \<exists>e \<in> set ?encs. ?decision e
                                         \<and> known_face_ids s ! ?best e = sid
                                    then ''Present'' else ''Absent''),
                              now))
                   (sort (map st_student_id (students (database s))))"
      by (simp only: mem)
    finally show ?thesis .
  qed
  have f: "students (database ?s') = students (database s)"
    by simp
  from a b d e f show ?thesis
    unfolding Let_def by blast
qed


theorem mark_attendance_best_match_decides_witness:
  "provider_ok stub_provider
   \<and> length (known_face_ids example_roster) = length (known_face_encodings example_roster)
   \<and> known_face_encodings example_roster \<noteq> []
   \<and> (\<exists>s'. AttendanceSystem_mark_attendance stub_provider ''2024-01-01'' ''t3'' example_roster
              (FromFile [[1 / 10, 0], [1 / 2, 1 / 2]])
             = Inr ([\<lparr>res_student_id = ''B'', res_name = ''Bob'', res_status = ''Present'',
                      res_confidence = 9 / 10\<rparr>], s')
           \<and> students (database s') = students (database example_roster)
           \<and> map row_data (attendance (database s'))
             = [(Some ''A'', Some ''2024-01-01'', Some ''Absent'', ''t3''),
                (Some ''B'', Some ''2024-01-01'', Some ''Present'', ''t3'')])"
proof -
  have h1: "provider_ok stub_provider"
    by (rule stub_provider_ok)
  have h2: "length (known_face_ids example_roster) = length (known_face_encodings example_roster)"
    by (simp add: example_roster_eq)
  have h3: "known_face_encodings example_roster \<noteq> []"
    by (simp add: example_roster_eq)
  note run = mark_attendance_best_match_decides [OF h1 h2 h3,
      of "FromFile [[1 / 10, 0], [1 / 2, 1 / 2]]" "''2024-01-01''" "''t3''"]
  have "\<exists>s'. AttendanceSystem_mark_attendance stub_provider ''2024-01-01'' ''t3'' example_roster
              (FromFile [[1 / 10, 0], [1 / 2, 1 / 2]])
             = Inr ([\<lparr>res_student_id = ''B'', res_name = ''Bob'', res_status = ''Present'',
                      res_confidence = 9 / 10\<rparr>], s')
           \<and> students (database s') = students (database example_roster)
           \<and> map row_data (attendance (database s'))
             = [(Some ''A'', Some ''2024-01-01'', Some ''Absent'', ''t3''),
                (Some ''B'', Some ''2024-01-01'', Some ''Present'', ''t3'')]"
    using run [unfolded Let_def, THEN conjunct2, THEN conjunct2]
    by (simp add: example_roster_eq stub_provider_def select_name_def)
  with h1 h2 h3 show ?thesis
    by (intro conjI) assumption+
qed

text \<open>
  C6. Every result that \<open>mark_attendance\<close> returns has status Present and comes from a
  detected face; its confidence is 1 minus the distance between that face and the
  matched stored embedding, which is the least of the distances to the known embeddings.
\<close>

theorem confidence_is_one_minus_distance:
  assumes "AttendanceSystem_mark_attendance P today now s src = Inr (results, s')"
    and "r \<in> set results"
  shows "let image = (case src of LiveFeed img \<Rightarrow> img | FromFile f \<Rightarrow> load_image_file P f)
         in \<exists>e \<in> set (face_encodings P image (Some (face_locations P image))).
              face_distance P (known_face_encodings s) e \<noteq> []
            \<and> res_status r = ''Present''
            \<and> res_student_id r
                = known_face_ids s ! argmin (face_distance P (known_face_encodings s) e)
            \<and> face_distance P (known_face_encodings s) e
                  ! argmin (face_distance P (known_face_encodings s) e)
                = Min (set (face_distance P (known_face_encodings s) e))
            \<and> res_confidence r
                = 1 - face_distance P (known_face_encodings s) e
                        ! argmin (face_distance P (known_face_encodings s) e)"
proof -
  let ?image = "case src of LiveFeed img \<Rightarrow> img | FromFile f \<Rightarrow> load_image_file P f"
  let ?encs = "face_encodings P ?image (Some (face_locations P ?image))"
  from assms(1) obtain present where "match_faces P s ?encs ([], []) = Inr (present, results)"
    by (auto simp: AttendanceSystem_mark_attendance_def Let_def split: sum.splits prod.splits)
  from match_faces_sound [OF this assms(2)]
  obtain e where e: "e \<in> set ?encs" and hit: "match_face P s e = Inr (Some r)"
    by auto
  note m = match_face_Some [OF hit]
  from m have "face_distance P (known_face_encodings s) e
                  ! argmin (face_distance P (known_face_encodings s) e)
                = Min (set (face_distance P (known_face_encodings s) e))"
    by (intro argmin_Min) simp
  with e m show ?thesis
    unfolding Let_def by blast
qed

theorem confidence_is_one_minus_distance_witness:
  "AttendanceSystem_mark_attendance stub_provider ''2024-01-01'' ''t3'' example_roster
       (FromFile [[1 / 10, 0]])
     = Inr ([\<lparr>res_student_id = ''B'', res_name = ''Bob'', res_status = ''Present'',
              res_confidence = 9 / 10\<rparr>],
            example_roster\<lparr>database := sweep [''B''] ''2024-01-01'' ''t3'' [''A'', ''B'']
                                           (database example_roster)\<rparr>)
   \<and> \<lparr>res_student_id = ''B'', res_name = ''Bob'', res_status = ''Present'',
       res_confidence = 9 / 10\<rparr>
       \<in> set [\<lparr>res_student_id = ''B'', res_name = ''Bob'', res_status = ''Present'',
                res_confidence = 9 / 10\<rparr>]
   \<and> (9 / 10 :: real) = 1 - Min (set (face_distance stub_provider [[0, 0], [1, 1]] [1 / 10, 0]))"
proof -
  have h1: "AttendanceSystem_mark_attendance stub_provider ''2024-01-01'' ''t3'' example_roster
       (FromFile [[1 / 10, 0]])
     = Inr ([\<lparr>res_student_id = ''B'', res_name = ''Bob'', res_status = ''Present'',
              res_confidence = 9 / 10\<rparr>],
            example_roster\<lparr>database := sweep [''B''] ''2024-01-01'' ''t3'' [''A'', ''B'']
                                           (database example_roster)\<rparr>)"
    by (simp add: AttendanceSystem_mark_attendance_def match_face_def select_name_def
        example_roster_eq stub_provider_def)
  have h2: "\<lparr>res_student_id = ''B'', res_name = ''Bob'', res_status = ''Present'',
       res_confidence = 9 / 10\<rparr>
       \<in> set [\<lparr>res_student_id = ''B'', res_name = ''Bob'', res_status = ''Present'',
                res_confidence = 9 / 10\<rparr>]"
    by simp
  from confidence_is_one_minus_distance [OF h1 h2]
  have "(9 / 10 :: real) = 1 - Min (set (face_distance stub_provider [[0, 0], [1, 1]] [1 / 10, 0]))"
    by (simp add: Let_def example_roster_eq stub_provider_def)
  with h1 h2 show ?thesis by blast
qed

section \<open>Reading the attendance of a date\<close>

lemma join_rows_unmatched:
  "filter (\<lambda>a. at_student_id a = Some (st_student_id r) \<and> at_date a = Some dt) as = []
     \<Longrightarrow> join_rows index_order_status_timestamp as dt r = [(r, None)]"
  by (simp add: join_rows_def index_order_status_timestamp_def)

lemma join_rows_student: "p \<in> set (join_rows index_order as dt r) \<Longrightarrow> fst p = r"
  by (auto simp: join_rows_def Let_def split: if_splits)

lemma join_all_unmatched:
  assumes "filter (\<lambda>a. at_date a = Some dt) as = []"
  shows "concat (map (join_rows index_order_status_timestamp as dt) rs) = map (\<lambda>r. (r, None)) rs"
proof -
  have "filter (\<lambda>a. at_student_id a = Some sid \<and> at_date a = Some dt) as = []" for sid
    using assms by (auto simp: filter_empty_conv)
  then have "join_rows index_order_status_timestamp as dt r = [(r, None)]" for r
    by (rule join_rows_unmatched)
  then show ?thesis
    by (induction rs) simp_all
qed

lemma attendance_data_unmatched:
  "attendance_data (map (\<lambda>r. (r, None)) rs)
     = map (\<lambda>r. \<lparr>ent_student_id = st_student_id r, ent_name = st_name r,
                   ent_status = ''Not Recorded'', ent_timestamp = None\<rparr>) rs"
  by (simp add: attendance_data_def or_default_def)

lemma get_attendance_empty_date:
  assumes "filter (\<lambda>a. at_date a = Some dt) (attendance (database s)) = []"
  shows "get_attendance s dt
           = jsonify (AttendanceList dt
               (map (\<lambda>r. \<lparr>ent_student_id = st_student_id r, ent_name = st_name r,
                             ent_status = ''Not Recorded'', ent_timestamp = None\<rparr>)
                  (sort_key st_student_id (students (database s)))))"
  by (simp add: get_attendance_def left_join_attendance_def join_all_unmatched [OF assms]
      attendance_data_unmatched)

lemma get_attendance_unmatched_student:
  assumes "r \<in> set (students (database s))"
    and "filter (\<lambda>a. at_student_id a = Some (st_student_id r) \<and> at_date a = Some dt)
           (attendance (database s)) = []"
  shows "\<lparr>ent_student_id = st_student_id r, ent_name = st_name r,
           ent_status = ''Not Recorded'', ent_timestamp = None\<rparr>
           \<in> set (attendance_data (left_join_attendance index_order_status_timestamp (database s) dt))"
    and "e \<in> set (attendance_data (left_join_attendance index_order_status_timestamp (database s) dt))
           \<Longrightarrow> ent_student_id e = st_student_id r
           \<Longrightarrow> ent_status e = ''Not Recorded'' \<and> ent_timestamp e = None"
proof -
  let ?as = "attendance (database s)"
  let ?rs = "sort_key st_student_id (students (database s))"
  have un: "join_rows index_order_status_timestamp ?as dt r' = [(r', None)]" if "st_student_id r' = st_student_id r" for r'
    using assms(2) that by (intro join_rows_unmatched) simp
  have "r \<in> set ?rs"
    using assms(1) by simp
  then have "(r, None) \<in> set (left_join_attendance index_order_status_timestamp (database s) dt)"
    using un [of r] by (auto simp: left_join_attendance_def intro!: bexI [of _ r])
  then show "\<lparr>ent_student_id = st_student_id r, ent_name = st_name r,
           ent_status = ''Not Recorded'', ent_timestamp = None\<rparr>
           \<in> set (attendance_data (left_join_attendance index_order_status_timestamp (database s) dt))"
    by (auto simp: attendance_data_def or_default_def image_iff intro!: bexI [of _ "(r, None)"])
next
  let ?as = "attendance (database s)"
  have un: "join_rows index_order_status_timestamp ?as dt r' = [(r', None)]" if "st_student_id r' = st_student_id r" for r'
    using assms(2) that by (intro join_rows_unmatched) simp
  assume "e \<in> set (attendance_data (left_join_attendance index_order_status_timestamp (database s) dt))"
    and sid: "ent_student_id e = st_student_id r"
  then obtain r' a where p: "(r', a) \<in> set (left_join_attendance index_order_status_timestamp (database s) dt)"
    and e: "e = \<lparr>ent_student_id = st_student_id r', ent_name = st_name r',
                 ent_status = or_default (case a of None \<Rightarrow> None | Some r \<Rightarrow> at_status r)
                                ''Not Recorded'',
                 ent_timestamp = (case a of None \<Rightarrow> None | Some r \<Rightarrow> Some (at_timestamp r))\<rparr>"
    by (auto simp: attendance_data_def)
  from p obtain r'' where "(r', a) \<in> set (join_rows index_order_status_timestamp ?as dt r'')"
    by (auto simp: left_join_attendance_def)
  moreover from this have "r'' = r'"
    using join_rows_student by fastforce
  moreover have "st_student_id r' = st_student_id r"
    using e sid by simp
  ultimately have "a = None"
    using un [of r'] by simp
  with e show "ent_status e = ''Not Recorded'' \<and> ent_timestamp e = None"
    by (simp add: or_default_def)
qed

text \<open>
  C7. When the store holds no attendance row for the date, \<open>get_attendance\<close> returns one
  entry per student, in the order of \<open>student_id\<close>, each with status Not Recorded and no
  timestamp. More generally, a student without an attendance row for the date has an
  entry with status Not Recorded, and every entry of that \<open>student_id\<close> has that status.
\<close>

theorem get_attendance_not_recorded:
  "(filter (\<lambda>a. at_date a = Some dt) (attendance (database s)) = []
      \<longrightarrow> get_attendance s dt
            = jsonify (AttendanceList dt
                (map (\<lambda>r. \<lparr>ent_student_id = st_student_id r, ent_name = st_name r,
                              ent_status = ''Not Recorded'', ent_timestamp = None\<rparr>)
                   (sort_key st_student_id (students (database s))))))
   \<and> (r \<in> set (students (database s))
        \<and> filter (\<lambda>a. at_student_id a = Some (st_student_id r) \<and> at_date a = Some dt)
             (attendance (database s)) = []
      \<longrightarrow> (\<exists>entries. get_attendance s dt = jsonify (AttendanceList dt entries)
            \<and> \<lparr>ent_student_id = st_student_id r, ent_name = st_name r,
                ent_status = ''Not Recorded'', ent_timestamp = None\<rparr> \<in> set entries
            \<and> (\<forall>e \<in> set entries. ent_student_id e = st_student_id r
                  \<longrightarrow> ent_status e = ''Not Recorded'' \<and> ent_timestamp e = None)))"
proof (intro conjI impI)
  assume "filter (\<lambda>a. at_date a = Some dt) (attendance (database s)) = []"
  then show "get_attendance s dt
            = jsonify (AttendanceList dt
                (map (\<lambda>r. \<lparr>ent_student_id = st_student_id r, ent_name = st_name r,
                              ent_status = ''Not Recorded'', ent_timestamp = None\<rparr>)
                   (sort_key st_student_id (students (database s)))))"
    by (rule get_attendance_empty_date)
next
  assume h: "r \<in> set (students (database s))
        \<and> filter (\<lambda>a. at_student_id a = Some (st_student_id r) \<and> at_date a = Some dt)
             (attendance (database s)) = []"
  then have h1: "r \<in> set (students (database s))"
    and h2: "filter (\<lambda>a. at_student_id a = Some (st_student_id r) \<and> at_date a = Some dt)
             (attendance (database s)) = []"
    by simp_all
  show "\<exists>entries. get_attendance s dt = jsonify (AttendanceList dt entries)
            \<and> \<lparr>ent_student_id = st_student_id r, ent_name = st_name r,
                ent_status = ''Not Recorded'', ent_timestamp = None\<rparr> \<in> set entries
            \<and> (\<forall>e \<in> set entries. ent_student_id e = st_student_id r
                  \<longrightarrow> ent_status e = ''Not Recorded'' \<and> ent_timestamp e = None)"
    using get_attendance_unmatched_student [OF h1 h2]
    by (intro exI [of _ "attendance_data (left_join_attendance index_order_status_timestamp (database s) dt)"])
       (simp add: get_attendance_def)
qed


lemma example_partly_marked_eq:
  "example_partly_marked =
     \<lparr>database =
        \<lparr>students =
           [\<lparr>st_id = 1, st_student_id = ''B'', st_name = ''Bob'',
             st_face_encoding = JsonText [0, 0], st_created_at = ''t1''\<rparr>,
            \<lparr>st_id = 2, st_student_id = ''A'', st_name = ''Ann'',
             st_face_encoding = JsonText [1, 1], st_created_at = ''t2''\<rparr>],
         students_seq = 2,
         attendance =
           [\<lparr>at_id = 1, at_student_id = Some ''B'', at_date = Some ''2024-01-02'',
             at_status = Some ''Present'', at_timestamp = ''t3''\<rparr>],
         attendance_seq = 1\<rparr>,
      known_face_encodings = [[0, 0], [1, 1]],
      known_face_ids = [''B'', ''A'']\<rparr>"
  by (simp add: example_partly_marked_def update_attendance_def example_roster_eq
      insert_or_replace_attendance_def next_rowid_def)

theorem get_attendance_not_recorded_witness:
  "filter (\<lambda>a. at_date a = Some ''2024-01-03'') (attendance (database example_partly_marked)) = []
   \<and> get_attendance example_partly_marked ''2024-01-03''
       = jsonify (AttendanceList ''2024-01-03''
           [\<lparr>ent_student_id = ''A'', ent_name = ''Ann'', ent_status = ''Not Recorded'',
             ent_timestamp = None\<rparr>,
            \<lparr>ent_student_id = ''B'', ent_name = ''Bob'', ent_status = ''Not Recorded'',
             ent_timestamp = None\<rparr>])
   \<and> \<lparr>st_id = 2, st_student_id = ''A'', st_name = ''Ann'',
       st_face_encoding = JsonText [1, 1], st_created_at = ''t2''\<rparr>
       \<in> set (students (database example_partly_marked))
   \<and> filter (\<lambda>a. at_student_id a = Some ''A'' \<and> at_date a = Some ''2024-01-02'')
        (attendance (database example_partly_marked)) = []
   \<and> (\<exists>entries. get_attendance example_partly_marked ''2024-01-02''
                   = jsonify (AttendanceList ''2024-01-02'' entries)
         \<and> \<lparr>ent_student_id = ''A'', ent_name = ''Ann'', ent_status = ''Not Recorded'',
             ent_timestamp = None\<rparr> \<in> set entries)"
proof -
  let ?ann = "\<lparr>st_id = 2, st_student_id = ''A'', st_name = ''Ann'',
               st_face_encoding = JsonText [1, 1], st_created_at = ''t2''\<rparr>"
  have a: "filter (\<lambda>a. at_date a = Some ''2024-01-03'')
             (attendance (database example_partly_marked)) = []"
    by (simp add: example_partly_marked_eq)
  have b1: "?ann \<in> set (students (database example_partly_marked))"
    by (simp add: example_partly_marked_eq)
  have b2: "filter (\<lambda>a. at_student_id a = Some (st_student_id ?ann) \<and> at_date a = Some ''2024-01-02'')
        (attendance (database example_partly_marked)) = []"
    by (simp add: example_partly_marked_eq)
  have first: "get_attendance example_partly_marked ''2024-01-03''
       = jsonify (AttendanceList ''2024-01-03''
           [\<lparr>ent_student_id = ''A'', ent_name = ''Ann'', ent_status = ''Not Recorded'',
             ent_timestamp = None\<rparr>,
            \<lparr>ent_student_id = ''B'', ent_name = ''Bob'', ent_status = ''Not Recorded'',
             ent_timestamp = None\<rparr>])"
    using get_attendance_not_recorded [of "''2024-01-03''" example_partly_marked ?ann,
        THEN conjunct1, THEN mp, OF a]
    by (simp add: example_partly_marked_eq)
  have second: "\<exists>entries. get_attendance example_partly_marked ''2024-01-02''
                   = jsonify (AttendanceList ''2024-01-02'' entries)
         \<and> \<lparr>ent_student_id = ''A'', ent_name = ''Ann'', ent_status = ''Not Recorded'',
             ent_timestamp = None\<rparr> \<in> set entries"
    using get_attendance_not_recorded [of "''2024-01-02''" example_partly_marked ?ann,
        THEN conjunct2, THEN mp, OF conjI, OF b1 b2]
    by auto
  from a first b1 b2 second show ?thesis
    by simp
qed

section \<open>Students without a stored encoding\<close>

lemma match_faces_total:
  assumes "provider_ok P" and "length (known_face_ids s) = length (known_face_encodings s)"
  shows "\<exists>results. match_faces P s es ([], []) = Inr (map res_student_id results, results)
           \<and> set (map res_student_id results) \<subseteq> set (known_face_ids s)"
proof -
  let ?hit = "\<lambda>e. if face_distance P (known_face_encodings s) e \<noteq> []
                     \<and> compare_faces P (known_face_encodings s) e
                         ! argmin (face_distance P (known_face_encodings s) e)
                  then Some \<lparr>res_student_id =
                               known_face_ids s ! argmin (face_distance P (known_face_encodings s) e),
                             res_name =
                               (case select_name (database s)
                                       (known_face_ids s
                                          ! argmin (face_distance P (known_face_encodings s) e)) of
                                  Some n \<Rightarrow> n | None \<Rightarrow> ''Unknown''),
                             res_status = ''Present'',
                             res_confidence =
                               1 - face_distance P (known_face_encodings s) e
                                     ! argmin (face_distance P (known_face_encodings s) e)\<rparr>
                  else None"
  have run: "match_faces P s es ([], [])
          = Inr (map res_student_id (List.map_filter ?hit es), List.map_filter ?hit es)"
    using match_faces_collect [of es P s ?hit "[]" "[]"] match_face_total [OF assms]
    by simp
  have "res_student_id r \<in> set (known_face_ids s)" if "r \<in> set (List.map_filter ?hit es)" for r
  proof -
    from match_faces_sound [OF run that] obtain e where "match_face P s e = Inr (Some r)"
      by auto
    from match_face_Some [OF this] show ?thesis
      by simp
  qed
  with run show ?thesis
    by (intro exI [of _ "List.map_filter ?hit es"]) auto
qed

lemma load_known_faces_ids:
  "known_face_ids (load_known_faces s)
     = map st_student_id (filter (\<lambda>r. \<exists>e. st_face_encoding r = JsonText e) (students (database s)))"
  by (simp add: load_known_faces_def load_rows_ids)

lemma load_known_faces_lockstep:
  "length (known_face_ids (load_known_faces s)) = length (known_face_encodings (load_known_faces s))"
  by (simp add: load_known_faces_def load_rows_length)

lemma unencoded_not_cached:
  assumes "distinct (map st_student_id (students (database s)))"
    and "r \<in> set (students (database s))"
    and "st_face_encoding r = SqlNull \<or> st_face_encoding r = EmptyText"
  shows "st_student_id r \<notin> set (known_face_ids (load_known_faces s))"
proof
  assume "st_student_id r \<in> set (known_face_ids (load_known_faces s))"
  then obtain r' e where r': "r' \<in> set (students (database s))"
    and enc: "st_face_encoding r' = JsonText e"
    and same: "st_student_id r' = st_student_id r"
    by (auto simp: load_known_faces_ids)
  from assms(1) have "inj_on st_student_id (set (students (database s)))"
    by (simp add: distinct_map)
  with r' assms(2) same have "r' = r"
    by (auto dest: inj_onD)
  with enc assms(3) show False
    by auto
qed

text \<open>
  C10. A student row whose \<open>face_encoding\<close> is NULL or the empty text (the
  \<open>student_id\<close>s being unique, as the table declares) is left out of the cache by the
  reload, so that \<open>mark_attendance\<close> on the reloaded cache never returns a Present
  result for it; the call nevertheless returns, and its roster sweep writes an Absent row
  for that student and today.
\<close>

theorem unencoded_student_swept_absent:
  assumes "provider_ok P"
    and "distinct (map st_student_id (students (database s0)))"
    and "r \<in> set (students (database s0))"
    and "st_face_encoding r = SqlNull \<or> st_face_encoding r = EmptyText"
  shows "let s = load_known_faces s0
         in st_student_id r \<notin> set (known_face_ids s)
          \<and> length (known_face_encodings s) = length (known_face_ids s)
          \<and> (\<exists>results s'. AttendanceSystem_mark_attendance P today now s src = Inr (results, s')
                \<and> st_student_id r \<notin> set (map res_student_id results)
                \<and> (Some (st_student_id r), Some today, Some ''Absent'', now)
                    \<in> set (drop (length (attendance (database s)))
                              (map row_data (attendance (database s')))))"
proof -
  let ?s = "load_known_faces s0"
  let ?image = "case src of LiveFeed img \<Rightarrow> img | FromFile f \<Rightarrow> load_image_file P f"
  let ?encs = "face_encodings P ?image (Some (face_locations P ?image))"
  have db: "database ?s = database s0"
    by (simp add: load_known_faces_def)
  have out: "st_student_id r \<notin> set (known_face_ids ?s)"
    by (rule unencoded_not_cached [OF assms(2,3,4)])
  have lock: "length (known_face_ids ?s) = length (known_face_encodings ?s)"
    by (rule load_known_faces_lockstep)
  from match_faces_total [OF assms(1) lock, of ?encs]
  obtain results where run: "match_faces P ?s ?encs ([], []) = Inr (map res_student_id results, results)"
    and sub: "set (map res_student_id results) \<subseteq> set (known_face_ids ?s)"
    by blast
  let ?s' = "?s\<lparr>database := sweep (map res_student_id results) today now
                                 (sort (map st_student_id (students (database ?s)))) (database ?s)\<rparr>"
  have call: "AttendanceSystem_mark_attendance P today now ?s src = Inr (results, ?s')"
    by (simp add: AttendanceSystem_mark_attendance_def Let_def run)
  from out sub have absent: "st_student_id r \<notin> set (map res_student_id results)"
    by blast
  have rows: "drop (length (attendance (database ?s))) (map row_data (attendance (database ?s')))
          = map (\<lambda>sid. (Some sid, Some today,
                         Some (if sid \<in> set (map res_student_id results)
                               then ''Present'' else ''Absent''), now))
               (sort (map st_student_id (students (database ?s))))"
    by (simp add: sweep_attendance)
  have "st_student_id r \<in> set (sort (map st_student_id (students (database ?s))))"
    using assms(3) by (simp add: db)
  then have "(Some (st_student_id r), Some today, Some ''Absent'', now)
          \<in> set (drop (length (attendance (database ?s))) (map row_data (attendance (database ?s'))))"
    unfolding rows using absent
    by (auto simp: image_iff intro!: bexI [of _ "st_student_id r"])
  with out lock call absent show ?thesis
    unfolding Let_def by (intro conjI exI [of _ results] exI [of _ ?s']) simp_all
qed


theorem unencoded_student_swept_absent_witness:
  "provider_ok stub_provider
   \<and> distinct (map st_student_id (students (database example_unencoded)))
   \<and> \<lparr>st_id = 2, st_student_id = ''N'', st_name = ''Nell'',
       st_face_encoding = SqlNull, st_created_at = ''t2''\<rparr>
       \<in> set (students (database example_unencoded))
   \<and> known_face_ids (load_known_faces example_unencoded) = [''B'']
   \<and> (\<exists>results s'.
          AttendanceSystem_mark_attendance stub_provider ''2024-01-01'' ''t3''
              (load_known_faces example_unencoded) (FromFile [[0, 0]])
            = Inr (results, s')
        \<and> ''N'' \<notin> set (map res_student_id results)
        \<and> (Some ''N'', Some ''2024-01-01'', Some ''Absent'', ''t3'')
            \<in> set (map row_data (attendance (database s'))))"
proof -
  let ?nell = "\<lparr>st_id = 2, st_student_id = ''N'', st_name = ''Nell'',
                st_face_encoding = SqlNull, st_created_at = ''t2''\<rparr>"
  have h1: "provider_ok stub_provider"
    by (rule stub_provider_ok)
  have h2: "distinct (map st_student_id (students (database example_unencoded)))"
    by (simp add: example_unencoded_def)
  have h3: "?nell \<in> set (students (database example_unencoded))"
    by (simp add: example_unencoded_def)
  have h4: "st_face_encoding ?nell = SqlNull \<or> st_face_encoding ?nell = EmptyText"
    by simp
  have ids: "known_face_ids (load_known_faces example_unencoded) = [''B'']"
    by (simp add: load_known_faces_def example_unencoded_def)
  have old: "attendance (database (load_known_faces example_unencoded)) = []"
    by (simp add: load_known_faces_def example_unencoded_def)
  have "\<exists>results s'.
          AttendanceSystem_mark_attendance stub_provider ''2024-01-01'' ''t3''
              (load_known_faces example_unencoded) (FromFile [[0, 0]])
            = Inr (results, s')
        \<and> ''N'' \<notin> set (map res_student_id results)
        \<and> (Some ''N'', Some ''2024-01-01'', Some ''Absent'', ''t3'')
            \<in> set (map row_data (attendance (database s')))"
    using unencoded_student_swept_absent [OF h1 h2 h3 h4,
        of "''2024-01-01''" "''t3''" "FromFile [[0, 0]]",
        unfolded Let_def, THEN conjunct2, THEN conjunct2]
    by (simp add: old)
  with h1 h2 h3 ids show ?thesis
    by (intro conjI) assumption+
qed

section \<open>Repeated attendance writes\<close>

lemma str_nat_one: "str_nat (Suc 0) = ''1''"
  by code_simp

lemma example_first_mark_run:
  "mark_attendance stub_provider ''2024-01-01'' ''t3'' example_roster (Some [[1 / 10, 0]])
     = Inr (jsonify (MarkResults True
                      [\<lparr>res_student_id = ''B'', res_name = ''Bob'', res_status = ''Present'',
                        res_confidence = 9 / 10\<rparr>] 1
                      ''Attendance marked for 1 students''),
            example_first_mark)"
  by (simp add: mark_attendance_def AttendanceSystem_mark_attendance_def match_face_def
      select_name_def sweep_def insert_or_replace_attendance_def next_rowid_def
      example_first_mark_def example_roster_eq stub_provider_def str_nat_one)

lemma example_second_mark_run:
  "mark_attendance stub_provider ''2024-01-01'' ''t4'' example_first_mark (Some [[1, 1]])
     = Inr (jsonify (MarkResults True
                      [\<lparr>res_student_id = ''A'', res_name = ''Ann'', res_status = ''Present'',
                        res_confidence = 1\<rparr>] 1
                      ''Attendance marked for 1 students''),
            example_second_mark)"
  by (simp add: mark_attendance_def AttendanceSystem_mark_attendance_def match_face_def
      select_name_def sweep_def insert_or_replace_attendance_def next_rowid_def
      example_first_mark_def example_second_mark_def example_roster_eq stub_provider_def
      str_nat_one)

lemma update_attendance_appends:
  "update_attendance now s data
     = (jsonify (SuccessMessage True ''Attendance updated''),
        s\<lparr>database := insert_or_replace_attendance (database s)
                         (upd_student_id data) (upd_date data) (upd_status data) now\<rparr>)
   \<and> map row_data (attendance (database (snd (update_attendance now s data))))
       = map row_data (attendance (database s))
         @ [(upd_student_id data, upd_date data, upd_status data, now)]"
  by (simp add: update_attendance_def attendance_insert row_data_def)

lemma mark_attendance_appends:
  assumes "AttendanceSystem_mark_attendance P today now s src = Inr (results, s')"
  shows "length (attendance (database s'))
           = length (attendance (database s)) + length (students (database s))"
  using assms
  by (auto simp: AttendanceSystem_mark_attendance_def Let_def sweep_length
      split: sum.splits prod.splits)


text \<open>
  C1. The attendance table declares no uniqueness constraint on (\<open>student_id\<close>,
  \<open>date\<close>), so INSERT OR REPLACE never finds a row to replace. Run on the example roster:
  two manual updates of Bob for 2024-01-01 leave two rows for that student and date, and
  so do two \<open>mark_attendance\<close> calls on that day.
\<close>

theorem attendance_rows_are_appended:
  "(let data = \<lparr>upd_student_id = Some ''B'', upd_date = Some ''2024-01-01'',
                 upd_status = Some ''Present''\<rparr>;
        s1 = snd (update_attendance ''t3'' example_roster data);
        s2 = snd (update_attendance ''t4'' s1 data)
    in map row_data
         (filter (\<lambda>a. at_student_id a = Some ''B'' \<and> at_date a = Some ''2024-01-01'')
            (attendance (database s2)))
       = [(Some ''B'', Some ''2024-01-01'', Some ''Present'', ''t3''),
          (Some ''B'', Some ''2024-01-01'', Some ''Present'', ''t4'')])
   \<and> map_sum id snd
         (mark_attendance stub_provider ''2024-01-01'' ''t3'' example_roster (Some [[1 / 10, 0]]))
       = Inr example_first_mark
   \<and> map_sum id snd
         (mark_attendance stub_provider ''2024-01-01'' ''t4'' example_first_mark (Some [[1, 1]]))
       = Inr example_second_mark
   \<and> map row_data
         (filter (\<lambda>a. at_student_id a = Some ''B'' \<and> at_date a = Some ''2024-01-01'')
            (attendance (database example_second_mark)))
       = [(Some ''B'', Some ''2024-01-01'', Some ''Present'', ''t3''),
          (Some ''B'', Some ''2024-01-01'', Some ''Absent'', ''t4'')]"
proof -
  have "map row_data
         (filter (\<lambda>a. at_student_id a = Some ''B'' \<and> at_date a = Some ''2024-01-01'')
            (attendance (database (snd (update_attendance ''t4''
               (snd (update_attendance ''t3'' example_roster
                  \<lparr>upd_student_id = Some ''B'', upd_date = Some ''2024-01-01'',
                   upd_status = Some ''Present''\<rparr>))
               \<lparr>upd_student_id = Some ''B'', upd_date = Some ''2024-01-01'',
                upd_status = Some ''Present''\<rparr>)))))
       = [(Some ''B'', Some ''2024-01-01'', Some ''Present'', ''t3''),
          (Some ''B'', Some ''2024-01-01'', Some ''Present'', ''t4'')]"
    by (simp add: update_attendance_def attendance_insert row_data_def example_roster_eq)
  moreover have "map row_data
         (filter (\<lambda>a. at_student_id a = Some ''B'' \<and> at_date a = Some ''2024-01-01'')
            (attendance (database example_second_mark)))
       = [(Some ''B'', Some ''2024-01-01'', Some ''Present'', ''t3''),
          (Some ''B'', Some ''2024-01-01'', Some ''Absent'', ''t4'')]"
    by (simp add: example_second_mark_def row_data_def)
  ultimately show ?thesis
    by (simp add: Let_def example_first_mark_run example_second_mark_run)
qed

text \<open>
  C2. Two \<open>mark_attendance\<close> calls on 2024-01-01, the first matching Bob and the second
  matching Ann: the rows of the first call stay in the table, and \<open>get_attendance\<close> for
  that day then returns two entries per student, those of the first call (Bob Present,
  Ann Absent) beside those of the second.
\<close>

theorem second_mark_does_not_overwrite:
  "mark_attendance stub_provider ''2024-01-01'' ''t3'' example_roster (Some [[1 / 10, 0]])
     = Inr (jsonify (MarkResults True
                      [\<lparr>res_student_id = ''B'', res_name = ''Bob'', res_status = ''Present'',
                        res_confidence = 9 / 10\<rparr>] 1
                      ''Attendance marked for 1 students''),
            example_first_mark)
   \<and> mark_attendance stub_provider ''2024-01-01'' ''t4'' example_first_mark (Some [[1, 1]])
     = Inr (jsonify (MarkResults True
                      [\<lparr>res_student_id = ''A'', res_name = ''Ann'', res_status = ''Present'',
                        res_confidence = 1\<rparr>] 1
                      ''Attendance marked for 1 students''),
            example_second_mark)
   \<and> get_attendance example_second_mark ''2024-01-01''
     = jsonify (AttendanceList ''2024-01-01''
         [\<lparr>ent_student_id = ''A'', ent_name = ''Ann'', ent_status = ''Absent'',
           ent_timestamp = Some ''t3''\<rparr>,
          \<lparr>ent_student_id = ''A'', ent_name = ''Ann'', ent_status = ''Present'',
           ent_timestamp = Some ''t4''\<rparr>,
          \<lparr>ent_student_id = ''B'', ent_name = ''Bob'', ent_status = ''Absent'',
           ent_timestamp = Some ''t4''\<rparr>,
          \<lparr>ent_student_id = ''B'', ent_name = ''Bob'', ent_status = ''Present'',
           ent_timestamp = Some ''t3''\<rparr>])"
proof -
  have "get_attendance example_second_mark ''2024-01-01''
     = jsonify (AttendanceList ''2024-01-01''
         [\<lparr>ent_student_id = ''A'', ent_name = ''Ann'', ent_status = ''Absent'',
           ent_timestamp = Some ''t3''\<rparr>,
          \<lparr>ent_student_id = ''A'', ent_name = ''Ann'', ent_status = ''Present'',
           ent_timestamp = Some ''t4''\<rparr>,
          \<lparr>ent_student_id = ''B'', ent_name = ''Bob'', ent_status = ''Absent'',
           ent_timestamp = Some ''t4''\<rparr>,
          \<lparr>ent_student_id = ''B'', ent_name = ''Bob'', ent_status = ''Present'',
           ent_timestamp = Some ''t3''\<rparr>])"
    by (simp add: get_attendance_def left_join_attendance_def join_rows_def attendance_data_def
        index_order_status_timestamp_def or_default_def example_second_mark_def
        example_roster_eq)
  then show ?thesis
    by (simp only: example_first_mark_run example_second_mark_run simp_thms)
qed

text \<open>
  C8. After the same two calls the roster has two students, and the CSV export for that
  day has the header and four data lines: one per joined attendance row, not one per
  student.
\<close>

theorem export_has_a_line_per_attendance_row:
  "map_sum id snd
     (mark_attendance stub_provider ''2024-01-01'' ''t3'' example_roster (Some [[1 / 10, 0]]))
     = Inr example_first_mark
   \<and> map_sum id snd
       (mark_attendance stub_provider ''2024-01-01'' ''t4'' example_first_mark (Some [[1, 1]]))
     = Inr example_second_mark
   \<and> length (students (database example_second_mark)) = 2
   \<and> export_attendance example_second_mark ''2024-01-01''
     = \<lparr>resp_code = 200,
        resp_headers = [(''Content-Type'', ''text/csv''),
                        (''Content-Disposition'',
                         ''attachment; filename=attendance_2024-01-01.csv'')],
        resp_body = CsvText
          (''Student ID,Name,Status,Date'' @ [CHR 0x0A]
           @ ''A,Ann,Absent,2024-01-01'' @ [CHR 0x0A]
           @ ''A,Ann,Present,2024-01-01'' @ [CHR 0x0A]
           @ ''B,Bob,Absent,2024-01-01'' @ [CHR 0x0A]
           @ ''B,Bob,Present,2024-01-01'' @ [CHR 0x0A])\<rparr>"
proof -
  have "export_attendance example_second_mark ''2024-01-01''
     = \<lparr>resp_code = 200,
        resp_headers = [(''Content-Type'', ''text/csv''),
                        (''Content-Disposition'',
                         ''attachment; filename=attendance_2024-01-01.csv'')],
        resp_body = CsvText
          (''Student ID,Name,Status,Date'' @ [CHR 0x0A]
           @ ''A,Ann,Absent,2024-01-01'' @ [CHR 0x0A]
           @ ''A,Ann,Present,2024-01-01'' @ [CHR 0x0A]
           @ ''B,Bob,Absent,2024-01-01'' @ [CHR 0x0A]
           @ ''B,Bob,Present,2024-01-01'' @ [CHR 0x0A])\<rparr>"
    by (simp add: export_attendance_def csv_data_def csv_line_def left_join_attendance_def
        join_rows_def index_order_status_def or_default_def example_second_mark_def
        example_roster_eq)
  moreover have "length (students (database example_second_mark)) = 2"
    by (simp add: example_second_mark_def example_roster_eq)
  ultimately show ?thesis
    by (simp add: example_first_mark_run example_second_mark_run)
qed

lemma register_student_missing_field:
  assumes "reg_image req = None \<or> reg_student_id req = None \<or> reg_student_id req = Some []
           \<or> reg_name req = None \<or> reg_name req = Some []"
  shows "\<exists>msg. register_student P now s req = (jsonify (SuccessMessage False msg), s)"
  using assms
  by (auto simp: register_student_def or_default_def split: option.splits)

lemma mark_attendance_missing_image:
  "mark_attendance P today now s None
     = Inr (jsonify (SuccessMessage False ''No image provided''), s)"
  by (simp add: mark_attendance_def)

text \<open>
  C9. \<open>update_attendance\<close> with a JSON body that has none of \<open>student_id\<close>, \<open>date\<close>,
  \<open>status\<close>: the handler answers 200 with \<open>success: true\<close> and inserts an attendance row
  whose three columns are NULL. (The two lemmas before it show that \<open>register_student\<close>
  and \<open>mark_attendance\<close> do refuse a request with a missing field, leaving the state as
  it was.)
\<close>

theorem update_attendance_accepts_missing_fields:
  "update_attendance ''t3'' example_roster
     \<lparr>upd_student_id = None, upd_date = None, upd_status = None\<rparr>
   = (jsonify (SuccessMessage True ''Attendance updated''),
      example_roster\<lparr>database := (database example_roster)
        \<lparr>attendance := [\<lparr>at_id = 1, at_student_id = None, at_date = None, at_status = None,
                          at_timestamp = ''t3''\<rparr>],
         attendance_seq := 1\<rparr>\<rparr>)
   \<and> resp_code (jsonify (SuccessMessage True ''Attendance updated'')) = 200"
  by (simp add: update_attendance_def insert_or_replace_attendance_def next_rowid_def
      example_roster_eq jsonify_def)

end
